theory Spec2Isabelle
  imports Complex_Main
begin

section \<open>Values, thrown errors and the remote world\<close>

text \<open>
  The tools of the server are TypeScript classes whose \<open>execute\<close> method takes an argument
  object and returns a \<open>ToolCallResult\<close>. Numbers of the argument object are modelled as
  \<open>real\<close> (every finite double is one), \<open>Math.floor\<close> takes them to \<open>int\<close>, and the integer
  arithmetic that follows is the exact one (as it is on doubles below \<open>2^53\<close>), except for
  the corners of the interior of a hollow cube, where the sum and the difference are rounded
  as those of doubles are. An optional field is an \<open>option\<close>.
\<close>

datatype jsval =
    JUndefined
  | JNum real
  | JStr string
  | JBool bool
  | JArr "jsval list"
  | JObj "(string \<times> jsval) list"

text \<open>
  A template literal is kept as the list of its parts: literal text and substituted values.
  The conversion of a number to its decimal text is left to the reader of the message.
\<close>

datatype part = Txt string | Sub jsval

type_synonym text_message = "part list"

text \<open>
  What a \<open>catch\<close> clause receives: an \<open>Error\<close> object with its message, or any other value
  with the text \<open>String(error)\<close> gives for it.
\<close>

datatype thrown = Error_object string | Other_value string

fun error_text :: "thrown \<Rightarrow> string" where
  "error_text (Error_object m) = m"
| "error_text (Other_value s) = s"

record 'd tool_call_result =
  success :: bool
  message :: text_message
  data :: "'d option"

type_synonym pos = "int \<times> int \<times> int"

datatype weather_type = Clear | Rain | Thunder

record player =
  name :: string
  isLocalPlayer :: bool

text \<open>
  The \<open>World\<close> object of the socket-be library, over a state \<open>'w\<close> of the remote world. A method
  either throws (its promise rejects) or returns, and leaves the world in a new state.
\<close>

record 'w world_api =
  fillBlocks :: "pos \<Rightarrow> pos \<Rightarrow> string \<Rightarrow> 'w \<Rightarrow> (thrown + int) \<times> 'w"
  setTimeOfDay :: "real \<Rightarrow> 'w \<Rightarrow> (thrown + unit) \<times> 'w"
  getTimeOfDay :: "'w \<Rightarrow> (thrown + real) \<times> 'w"
  getDay :: "'w \<Rightarrow> (thrown + real) \<times> 'w"
  getCurrentTick :: "'w \<Rightarrow> (thrown + real) \<times> 'w"
  setWeather :: "weather_type \<Rightarrow> real option \<Rightarrow> 'w \<Rightarrow> (thrown + unit) \<times> 'w"
  getWeather :: "'w \<Rightarrow> (thrown + jsval) \<times> 'w"
  getPlayers :: "'w \<Rightarrow> (thrown + player list) \<times> 'w"
  sendMessage :: "string \<Rightarrow> string option \<Rightarrow> 'w \<Rightarrow> (thrown + unit) \<times> 'w"
  runCommand :: "string \<Rightarrow> 'w \<Rightarrow> (thrown + jsval) \<times> 'w"
  world_name :: "'w \<Rightarrow> string"
  connectedAt :: "'w \<Rightarrow> real"
  averagePing :: "'w \<Rightarrow> real"
  maxPlayers :: "'w \<Rightarrow> real"
  isValid :: "'w \<Rightarrow> bool"

text \<open>The calls a tool makes on the world are logged, each with the error it threw, if any.\<close>

datatype gw_call =
    FillBlocks pos pos string
  | SetTimeOfDay real
  | GetTimeOfDay
  | GetDay
  | GetCurrentTick
  | SetWeather weather_type "real option"
  | GetWeather
  | GetPlayers
  | SendMessage string "string option"
  | RunCommand string

type_synonym event = "gw_call \<times> thrown option"

text \<open>
  An awaited computation on the world: from the world and the log so far to a thrown error
  or a value, the new world and the extended log.
\<close>

type_synonym ('w, 'a) gw = "'w \<times> event list \<Rightarrow> (thrown + 'a) \<times> 'w \<times> event list"

definition return_gw :: "'a \<Rightarrow> ('w, 'a) gw" where
  "return_gw a = (\<lambda>(w, evs). (Inr a, w, evs))"

definition bind_gw :: "('w, 'a) gw \<Rightarrow> ('a \<Rightarrow> ('w, 'b) gw) \<Rightarrow> ('w, 'b) gw" where
  "bind_gw m k = (\<lambda>s. case m s of
       (Inl e, w', evs') \<Rightarrow> (Inl e, w', evs')
     | (Inr a, w', evs') \<Rightarrow> k a (w', evs'))"

text \<open>A \<open>try\<close> block whose \<open>catch\<close> clause returns a value: nothing is thrown out of it.\<close>

definition try_catch ::
  "('w, 'a) gw \<Rightarrow> (thrown \<Rightarrow> 'a) \<Rightarrow> 'w \<times> event list \<Rightarrow> 'a \<times> 'w \<times> event list"
where
  "try_catch m h = (\<lambda>s. case m s of
       (Inl e, w', evs') \<Rightarrow> (h e, w', evs')
     | (Inr a, w', evs') \<Rightarrow> (a, w', evs'))"

definition invoke :: "gw_call \<Rightarrow> ('w \<Rightarrow> (thrown + 'a) \<times> 'w) \<Rightarrow> ('w, 'a) gw" where
  "invoke c f = (\<lambda>(w, evs). case f w of
       (Inl e, w') \<Rightarrow> (Inl e, w', evs @ [(c, Some e)])
     | (Inr a, w') \<Rightarrow> (Inr a, w', evs @ [(c, None)]))"

text \<open>
  Modelled from the spec: \<open>createErrorResponse\<close> of the base class \<open>BaseTool\<close> is not among the
  sources; by the spec every failure path produces an outcome with \<open>success: false\<close> and a
  message.
\<close>

definition createErrorResponse :: "text_message \<Rightarrow> 'd tool_call_result" where
  "createErrorResponse m = \<lparr>success = False, message = m, data = None\<rparr>"

section \<open>The cube building tool\<close>

record build_args =
  b_action :: "string option"
  b_x1 :: real
  b_y1 :: real
  b_z1 :: real
  b_x2 :: real
  b_y2 :: real
  b_z2 :: real
  b_material :: "string option"
  b_hollow :: "bool option"

record coords =
  c_x1 :: int
  c_y1 :: int
  c_z1 :: int
  c_x2 :: int
  c_y2 :: int
  c_z2 :: int

record cube_data =
  d_type :: string
  d_from :: pos
  d_to :: pos
  d_material :: string
  d_hollow :: bool
  d_volume :: int
  d_apiUsed :: string

type_synonym cube_result = "cube_data tool_call_result"

text \<open>The defaults of the destructured argument object (line 132).\<close>

definition action_of :: "build_args \<Rightarrow> string" where
  "action_of args = (case b_action args of None \<Rightarrow> ''build'' | Some a \<Rightarrow> a)"

definition material_of :: "build_args \<Rightarrow> string" where
  "material_of args = (case b_material args of None \<Rightarrow> ''minecraft:stone'' | Some m \<Rightarrow> m)"

definition hollow_of :: "build_args \<Rightarrow> bool" where
  "hollow_of args = (case b_hollow args of None \<Rightarrow> False | Some h \<Rightarrow> h)"

text \<open>The coordinates made integers (lines 140-147).\<close>

definition coords_of :: "build_args \<Rightarrow> coords" where
  "coords_of args =
     \<lparr>c_x1 = \<lfloor>b_x1 args\<rfloor>, c_y1 = \<lfloor>b_y1 args\<rfloor>, c_z1 = \<lfloor>b_z1 args\<rfloor>,
      c_x2 = \<lfloor>b_x2 args\<rfloor>, c_y2 = \<lfloor>b_y2 args\<rfloor>, c_z2 = \<lfloor>b_z2 args\<rfloor>\<rparr>"

text \<open>The check of the Y coordinates (line 150).\<close>

definition y_out_of_range :: "coords \<Rightarrow> bool" where
  "y_out_of_range c = (c_y1 c < -64 \<or> c_y1 c > 320 \<or> c_y2 c < -64 \<or> c_y2 c > 320)"

text \<open>The volume of the pre-flight check (line 158).\<close>

definition volume :: "coords \<Rightarrow> int" where
  "volume c = \<bar>c_x2 c - c_x1 c + 1\<bar> * \<bar>c_y2 c - c_y1 c + 1\<bar> * \<bar>c_z2 c - c_z1 c + 1\<bar>"

text \<open>The block identifier given to the world (lines 172-175).\<close>

definition blockId_of :: "string \<Rightarrow> string" where
  "blockId_of material =
     (if CHR '':'' \<in> set material then material else ''minecraft:'' @ material)"

definition corner1 :: "coords \<Rightarrow> pos" where
  "corner1 c = (c_x1 c, c_y1 c, c_z1 c)"

definition corner2 :: "coords \<Rightarrow> pos" where
  "corner2 c = (c_x2 c, c_y2 c, c_z2 c)"

text \<open>
  The arithmetic of doubles on integers. A double has 53 significant bits: \<open>ulp a\<close> is the
  distance between neighbouring doubles at the magnitude \<open>a\<close>, and \<open>round_double\<close> takes an
  integer to the nearest double, to the one with the even significand when two are equally
  near. \<open>js_plus\<close> and \<open>js_minus\<close> are \<open>+\<close> and \<open>-\<close> on integer-valued doubles. (Adding or
  subtracting 1 never leaves the range of the finite doubles, so no infinity arises.)
\<close>

function ulp :: "int \<Rightarrow> int" where
  "ulp a = (if a < 2 ^ 53 then 1 else 2 * ulp (a div 2))"
  by pat_completeness auto
termination
  by (relation "measure nat") auto

declare ulp.simps [simp del]

definition round_double :: "int \<Rightarrow> int" where
  "round_double n =
     (let a = \<bar>n\<bar>; u = ulp a; q = a div u; r = a mod u in
      sgn n * (u * (if 2 * r < u then q else if u < 2 * r then q + 1
                    else if even q then q else q + 1)))"

definition js_plus :: "int \<Rightarrow> int \<Rightarrow> int" where
  "js_plus a b = round_double (a + b)"

definition js_minus :: "int \<Rightarrow> int \<Rightarrow> int" where
  "js_minus a b = round_double (a - b)"

text \<open>The corners of the interior of a hollow cube (lines 190-195) and its test (line 198).\<close>

definition inner1 :: "coords \<Rightarrow> pos" where
  "inner1 c =
     (js_plus (min (c_x1 c) (c_x2 c)) 1, js_plus (min (c_y1 c) (c_y2 c)) 1,
      js_plus (min (c_z1 c) (c_z2 c)) 1)"

definition inner2 :: "coords \<Rightarrow> pos" where
  "inner2 c =
     (js_minus (max (c_x1 c) (c_x2 c)) 1, js_minus (max (c_y1 c) (c_y2 c)) 1,
      js_minus (max (c_z1 c) (c_z2 c)) 1)"

definition has_interior :: "coords \<Rightarrow> bool" where
  "has_interior c =
     (case (inner1 c, inner2 c) of
        ((innerX1, innerY1, innerZ1), (innerX2, innerY2, innerZ2)) \<Rightarrow>
          innerX1 \<le> innerX2 \<and> innerY1 \<le> innerY2 \<and> innerZ1 \<le> innerZ2)"

definition call_fillBlocks :: "'w world_api \<Rightarrow> pos \<Rightarrow> pos \<Rightarrow> string \<Rightarrow> ('w, int) gw" where
  "call_fillBlocks api p q b = invoke (FillBlocks p q b) (fillBlocks api p q b)"

text \<open>The body of the inner \<open>try\<close> up to the value of \<open>blocksPlaced\<close> (lines 178-213).\<close>

definition place_blocks :: "'w world_api \<Rightarrow> coords \<Rightarrow> string \<Rightarrow> bool \<Rightarrow> ('w, int) gw" where
  "place_blocks api c blockId hollow =
     (if hollow then
        bind_gw (call_fillBlocks api (corner1 c) (corner2 c) blockId) (\<lambda>blocksPlaced.
          if has_interior c then
            bind_gw (call_fillBlocks api (inner1 c) (inner2 c) ''minecraft:air'') (\<lambda>removedBlocks.
              return_gw (blocksPlaced - removedBlocks))
          else return_gw blocksPlaced)
      else call_fillBlocks api (corner1 c) (corner2 c) blockId)"

definition built_message :: "coords \<Rightarrow> string \<Rightarrow> bool \<Rightarrow> int \<Rightarrow> text_message" where
  "built_message c blockId hollow blocksPlaced =
     [Txt (if hollow then ''Hollow'' else ''Solid''), Txt '' cube built with '', Txt blockId,
      Txt '' from ('', Sub (JNum (of_int (c_x1 c))), Txt '','', Sub (JNum (of_int (c_y1 c))),
      Txt '','', Sub (JNum (of_int (c_z1 c))), Txt '') to ('', Sub (JNum (of_int (c_x2 c))),
      Txt '','', Sub (JNum (of_int (c_y2 c))), Txt '','', Sub (JNum (of_int (c_z2 c))),
      Txt ''). Placed '', Sub (JNum (of_int blocksPlaced)), Txt '' blocks.'']"

definition built :: "coords \<Rightarrow> string \<Rightarrow> bool \<Rightarrow> int \<Rightarrow> cube_result" where
  "built c blockId hollow blocksPlaced =
     \<lparr>success = True,
      message = built_message c blockId hollow blocksPlaced,
      data = Some \<lparr>d_type = ''cube'', d_from = corner1 c, d_to = corner2 c,
                   d_material = blockId, d_hollow = hollow, d_volume = blocksPlaced,
                   d_apiUsed = ''Socket-BE''\<rparr>\<rparr>"

definition failure :: "text_message \<Rightarrow> 'd tool_call_result" where
  "failure m = \<lparr>success = False, message = m, data = None\<rparr>"

definition y_message :: text_message where
  "y_message = [Txt ''Y coordinates must be between -64 and 320'']"

definition volume_message :: text_message where
  "volume_message = [Txt ''Volume too large (maximum 32768 blocks)'']"

definition unavailable_message :: text_message where
  "unavailable_message = [Txt ''World not available. Ensure Minecraft is connected.'']"

definition unknown_build_action :: "string \<Rightarrow> text_message" where
  "unknown_build_action a =
     [Txt ''Unknown action: '', Txt a,
      Txt (''. Only '' @ [CHR 0x27] @ ''build'' @ [CHR 0x27] @ '' is supported.'')]"

text \<open>
  The body of the outer \<open>try\<close> of \<open>BuildCubeTool.execute\<close> (lines 132-233): the result, or
  what is thrown out of it, with the calls made and the world afterwards. \<open>world\<close> is the
  field \<open>this.world\<close>, \<open>None\<close> when no world is connected.
\<close>

definition build_cube_try ::
  "'w world_api \<Rightarrow> 'w option \<Rightarrow> build_args \<Rightarrow> (thrown + cube_result) \<times> event list \<times> 'w option"
where
  "build_cube_try api world args =
     (let action = action_of args; material = material_of args; hollow = hollow_of args in
      if action \<noteq> ''build'' then
        (Inr (createErrorResponse (unknown_build_action action)), [], world)
      else
        let c = coords_of args in
        if y_out_of_range c then (Inr (failure y_message), [], world)
        else if volume c > 32768 then (Inr (failure volume_message), [], world)
        else
          case world of
            None \<Rightarrow> (Inr (failure unavailable_message), [], world)
          | Some w \<Rightarrow>
              let blockId = blockId_of material in
              case try_catch
                     (bind_gw (place_blocks api c blockId hollow) (\<lambda>blocksPlaced.
                        return_gw (built c blockId hollow blocksPlaced)))
                     (\<lambda>error. failure [Txt ''Building error: '', Txt (error_text error)])
                     (w, [])
              of (r, w', evs) \<Rightarrow> (Inr r, evs, Some w'))"

text \<open>\<open>BuildCubeTool.execute\<close>, with the outer \<open>catch\<close> (lines 235-240).\<close>

definition build_cube_execute ::
  "'w world_api \<Rightarrow> 'w option \<Rightarrow> build_args \<Rightarrow> cube_result \<times> event list \<times> 'w option"
where
  "build_cube_execute api world args =
     (case build_cube_try api world args of
        (Inr r, evs, world') \<Rightarrow> (r, evs, world')
      | (Inl error, evs, world') \<Rightarrow>
          (failure [Txt ''Error building cube: '', Txt (error_text error)], evs, world'))"

section \<open>The world management tool\<close>

record 's world_args =
  w_action :: string
  w_time :: "real option"
  w_weather :: "string option"
  w_duration :: "real option"
  w_message :: "string option"
  w_target :: "string option"
  w_command :: "string option"
  w_steps :: "'s list option"

record world_data =
  wd_action :: string
  wd_result :: jsval
  wd_timestamp :: real

type_synonym world_result = "world_data tool_call_result"

fun getTimeDescription :: "real \<Rightarrow> string" where
  "getTimeDescription ticks =
     (if ticks \<ge> 0 \<and> ticks < 1000 then ''Dawn''
      else if ticks \<ge> 1000 \<and> ticks < 5000 then ''Morning''
      else if ticks \<ge> 5000 \<and> ticks < 7000 then ''Noon''
      else if ticks \<ge> 7000 \<and> ticks < 11000 then ''Afternoon''
      else if ticks \<ge> 11000 \<and> ticks < 13000 then ''Dusk''
      else if ticks \<ge> 13000 \<and> ticks < 17000 then ''Night''
      else if ticks \<ge> 17000 \<and> ticks < 19000 then ''Midnight''
      else ''Late Night'')"

text \<open>
  \<open>String.prototype.toLowerCase\<close> on the characters a \<open>string\<close> of HOL has: the letters
  \<open>A\<close> to \<open>Z\<close> go to \<open>a\<close> to \<open>z\<close>, every other character stays.
\<close>

definition lower_char :: "char \<Rightarrow> char" where
  "lower_char c =
     (case map_of (zip ''ABCDEFGHIJKLMNOPQRSTUVWXYZ'' ''abcdefghijklmnopqrstuvwxyz'') c of
        None \<Rightarrow> c
      | Some l \<Rightarrow> l)"

definition toLowerCase :: "string \<Rightarrow> string" where
  "toLowerCase s = map lower_char s"

definition normalizeWeatherType :: "string \<Rightarrow> weather_type" where
  "normalizeWeatherType weather =
     (let l = toLowerCase weather in
      if l = ''clear'' then Clear
      else if l = ''rain'' then Rain
      else if l = ''thunder'' then Thunder
      else Clear)"

text \<open>The result after the \<open>switch\<close> (lines 185-189); \<open>now\<close> is what \<open>Date.now()\<close> reads.\<close>

definition completed :: "string \<Rightarrow> jsval \<Rightarrow> text_message \<Rightarrow> real \<Rightarrow> world_result" where
  "completed action result m now =
     \<lparr>success = True, message = m,
      data = Some \<lparr>wd_action = action, wd_result = result, wd_timestamp = now\<rparr>\<rparr>"

definition truthy_string :: "string option \<Rightarrow> bool" where
  "truthy_string v = (case v of None \<Rightarrow> False | Some s \<Rightarrow> s \<noteq> [])"

definition truthy_number :: "real option \<Rightarrow> bool" where
  "truthy_number v = (case v of None \<Rightarrow> False | Some n \<Rightarrow> n \<noteq> 0)"

definition text_of :: "string option \<Rightarrow> string" where
  "text_of v = (case v of None \<Rightarrow> [] | Some s \<Rightarrow> s)"

definition number_of :: "real option \<Rightarrow> jsval" where
  "number_of v = (case v of None \<Rightarrow> JUndefined | Some n \<Rightarrow> JNum n)"

definition player_info :: "player \<Rightarrow> jsval" where
  "player_info p = JObj [(''name'', JStr (name p)), (''isLocal'', JBool (isLocalPlayer p))]"

text \<open>
  The body of the \<open>try\<close> of \<open>WorldTool.execute\<close> (lines 89-189), on a connected world.
  \<open>executeSequence\<close> is the method of the base class, which is not among the sources; it is a
  parameter here.
\<close>

definition world_try ::
  "'w world_api \<Rightarrow> ('s list \<Rightarrow> ('w, world_result) gw) \<Rightarrow> real \<Rightarrow> 's world_args
     \<Rightarrow> ('w, world_result) gw"
where
  "world_try api executeSequence now args =
     (let action = w_action args in
      if action = ''set_time'' then
        (case w_time args of
           None \<Rightarrow> return_gw (failure [Txt ''Time required for set_time''])
         | Some t \<Rightarrow>
             bind_gw (invoke (SetTimeOfDay t) (setTimeOfDay api t)) (\<lambda>_.
               return_gw (completed action JUndefined
                 [Txt ''Time set to '', Sub (JNum t), Txt '' ticks ('',
                  Txt (getTimeDescription t), Txt '')''] now)))
      else if action = ''get_time'' then
        bind_gw (invoke GetTimeOfDay (getTimeOfDay api)) (\<lambda>currentTime.
        bind_gw (invoke GetDay (getDay api)) (\<lambda>currentDay.
        bind_gw (invoke GetCurrentTick (getCurrentTick api)) (\<lambda>currentTick.
          return_gw (completed action
            (JObj [(''timeOfDay'', JNum currentTime), (''day'', JNum currentDay),
                   (''totalTicks'', JNum currentTick),
                   (''description'', JStr (getTimeDescription currentTime))])
            [Txt ''Current time: '', Sub (JNum currentTime), Txt '' ticks ('',
             Txt (getTimeDescription currentTime), Txt '') on day '', Sub (JNum currentDay)]
            now))))
      else if action = ''get_day'' then
        bind_gw (invoke GetDay (getDay api)) (\<lambda>result.
          return_gw (completed action (JNum result)
            [Txt ''Current day: '', Sub (JNum result)] now))
      else if action = ''set_weather'' then
        (if \<not> truthy_string (w_weather args) then
           return_gw (failure [Txt ''Weather required for set_weather''])
         else
           let weatherType = normalizeWeatherType (text_of (w_weather args)) in
           bind_gw (invoke (SetWeather weatherType (w_duration args))
                      (setWeather api weatherType (w_duration args))) (\<lambda>_.
             return_gw (completed action JUndefined
               (if truthy_number (w_duration args) then
                  [Txt ''Weather set to '', Txt (text_of (w_weather args)), Txt '' for '',
                   Sub (number_of (w_duration args)), Txt '' ticks'']
                else [Txt ''Weather set to '', Txt (text_of (w_weather args))]) now)))
      else if action = ''get_weather'' then
        bind_gw (invoke GetWeather (getWeather api)) (\<lambda>result.
          return_gw (completed action result [Txt ''Current weather: '', Sub result] now))
      else if action = ''get_players'' then
        bind_gw (invoke GetPlayers (getPlayers api)) (\<lambda>players.
          return_gw (completed action (JArr (map player_info players))
            [Txt ''Found '', Sub (JNum (of_nat (length players))), Txt '' players online'']
            now))
      else if action = ''get_world_info'' then
        (\<lambda>(w, evs).
          return_gw (completed action
            (JObj [(''name'', JStr (world_name api w)),
                   (''connectedAt'', JNum (connectedAt api w)),
                   (''averagePing'', JNum (averagePing api w)),
                   (''maxPlayers'', JNum (maxPlayers api w)),
                   (''isValid'', JBool (isValid api w))])
            [Txt ''World info retrieved: '', Txt (world_name api w)] now) (w, evs))
      else if action = ''send_message'' then
        (if \<not> truthy_string (w_message args) then
           return_gw (failure [Txt ''Message required for send_message''])
         else
           bind_gw (invoke (SendMessage (text_of (w_message args)) (w_target args))
                      (sendMessage api (text_of (w_message args)) (w_target args))) (\<lambda>_.
             return_gw (completed action JUndefined
               (if truthy_string (w_target args) then
                  [Txt ''Message sent to '', Txt (text_of (w_target args)),
                   Txt ('': '' @ [CHR 0x22]), Txt (text_of (w_message args)), Txt [CHR 0x22]]
                else
                  [Txt (''Message sent to all players: '' @ [CHR 0x22]),
                   Txt (text_of (w_message args)), Txt [CHR 0x22]]) now)))
      else if action = ''run_command'' then
        (if \<not> truthy_string (w_command args) then
           return_gw (failure [Txt ''Command required for run_command''])
         else
           bind_gw (invoke (RunCommand (text_of (w_command args)))
                      (runCommand api (text_of (w_command args)))) (\<lambda>result.
             return_gw (completed action result
               [Txt ''Command executed: '', Txt (text_of (w_command args))] now)))
      else if action = ''get_connection_info'' then
        (\<lambda>(w, evs).
          return_gw (completed action
            (JObj [(''averagePing'', JNum (averagePing api w)),
                   (''connectedAt'', JNum (connectedAt api w)),
                   (''maxPlayers'', JNum (maxPlayers api w)),
                   (''isValid'', JBool (isValid api w))])
            [Txt ''Connection info retrieved''] now) (w, evs))
      else if action = ''sequence'' then
        (case w_steps args of
           None \<Rightarrow>
             return_gw (createErrorResponse [Txt ''steps array is required for sequence action''])
         | Some steps \<Rightarrow> executeSequence steps)
      else return_gw (failure [Txt ''Unknown action: '', Txt action]))"

text \<open>\<open>WorldTool.execute\<close> (lines 84-197).\<close>

definition world_execute ::
  "'w world_api \<Rightarrow> ('s list \<Rightarrow> ('w, world_result) gw) \<Rightarrow> real \<Rightarrow> 'w option \<Rightarrow> 's world_args
     \<Rightarrow> world_result \<times> event list \<times> 'w option"
where
  "world_execute api executeSequence now world args =
     (case world of
        None \<Rightarrow> (failure unavailable_message, [], world)
      | Some w \<Rightarrow>
          (case try_catch (world_try api executeSequence now args)
                  (\<lambda>error. failure [Txt ''World management error: '', Txt (error_text error)])
                  (w, [])
           of (r, w', evs) \<Rightarrow> (r, evs, Some w')))"

section \<open>Requests and worlds for concrete runs\<close>

text \<open>
  A world whose state is the list of the answers its next \<open>fillBlocks\<close> calls give; every other
  method returns at once.
\<close>

definition scripted_api :: "(thrown + int) list world_api" where
  "scripted_api =
     \<lparr>fillBlocks = (\<lambda>p q b w. case w of [] \<Rightarrow> (Inr 0, []) | r # rs \<Rightarrow> (r, rs)),
      setTimeOfDay = (\<lambda>t w. (Inr (), w)),
      getTimeOfDay = (\<lambda>w. (Inr 0, w)),
      getDay = (\<lambda>w. (Inr 0, w)),
      getCurrentTick = (\<lambda>w. (Inr 0, w)),
      setWeather = (\<lambda>t d w. (Inr (), w)),
      getWeather = (\<lambda>w. (Inr (JStr ''clear''), w)),
      getPlayers = (\<lambda>w. (Inr [], w)),
      sendMessage = (\<lambda>m t w. (Inr (), w)),
      runCommand = (\<lambda>c w. (Inr JUndefined, w)),
      world_name = (\<lambda>w. ''world''),
      connectedAt = (\<lambda>w. 0),
      averagePing = (\<lambda>w. 0),
      maxPlayers = (\<lambda>w. 0),
      isValid = (\<lambda>w. True)\<rparr>"

definition cube_request :: "real \<Rightarrow> real \<Rightarrow> real \<Rightarrow> real \<Rightarrow> real \<Rightarrow> real \<Rightarrow> build_args" where
  "cube_request a b c d e f =
     \<lparr>b_action = None, b_x1 = a, b_y1 = b, b_z1 = c, b_x2 = d, b_y2 = e, b_z2 = f,
      b_material = Some ''stone'', b_hollow = None\<rparr>"

definition hollow_request :: "real \<Rightarrow> real \<Rightarrow> real \<Rightarrow> real \<Rightarrow> real \<Rightarrow> real \<Rightarrow> build_args" where
  "hollow_request a b c d e f =
     \<lparr>b_action = None, b_x1 = a, b_y1 = b, b_z1 = c, b_x2 = d, b_y2 = e, b_z2 = f,
      b_material = Some ''glass'', b_hollow = Some True\<rparr>"

text \<open>A world on which every method throws the same value.\<close>

definition failing_api :: "thrown \<Rightarrow> unit world_api" where
  "failing_api e =
     \<lparr>fillBlocks = (\<lambda>p q b w. (Inl e, w)),
      setTimeOfDay = (\<lambda>t w. (Inl e, w)),
      getTimeOfDay = (\<lambda>w. (Inl e, w)),
      getDay = (\<lambda>w. (Inl e, w)),
      getCurrentTick = (\<lambda>w. (Inl e, w)),
      setWeather = (\<lambda>t d w. (Inl e, w)),
      getWeather = (\<lambda>w. (Inl e, w)),
      getPlayers = (\<lambda>w. (Inl e, w)),
      sendMessage = (\<lambda>m t w. (Inl e, w)),
      runCommand = (\<lambda>c w. (Inl e, w)),
      world_name = (\<lambda>w. ''world''),
      connectedAt = (\<lambda>w. 0),
      averagePing = (\<lambda>w. 0),
      maxPlayers = (\<lambda>w. 0),
      isValid = (\<lambda>w. False)\<rparr>"

text \<open>A sequence runner that rejects without calling the world.\<close>

definition rejecting_sequence :: "thrown \<Rightarrow> unit list \<Rightarrow> ('w, world_result) gw" where
  "rejecting_sequence e steps = (\<lambda>(w, evs). (Inl e, w, evs))"

definition world_request :: "string \<Rightarrow> unit world_args" where
  "world_request a =
     \<lparr>w_action = a, w_time = None, w_weather = None, w_duration = None, w_message = None,
      w_target = None, w_command = None, w_steps = None\<rparr>"

text \<open>A build request that passes the three checks made before the world is used.\<close>

definition valid_request :: "build_args \<Rightarrow> bool" where
  "valid_request args =
     (action_of args = ''build'' \<and> \<not> y_out_of_range (coords_of args) \<and>
      volume (coords_of args) \<le> 32768)"

text \<open>
  A computation on the world propagates errors when it only extends the log and every call
  logged with an error is the one that ended it.
\<close>

definition propagates :: "('w, 'a) gw \<Rightarrow> bool" where
  "propagates m =
     (\<forall>w evs. case m (w, evs) of
        (r, w', evs') \<Rightarrow>
          \<exists>new. evs' = evs @ new \<and> (\<forall>c e. (c, Some e) \<in> set new \<longrightarrow> r = Inl e))"

section \<open>Auxiliary facts\<close>

lemma ulp_small: "a < 2 ^ 53 \<Longrightarrow> ulp a = 1"
  by (simp add: ulp.simps)

lemma ulp_two: "ulp 9007199254740992 = 2"
  by (subst ulp.simps) (simp add: ulp_small)

lemma round_double_exact: "\<bar>n\<bar> \<le> 2 ^ 53 \<Longrightarrow> round_double n = n"
proof (cases "\<bar>n\<bar> < 2 ^ 53")
  case True
  then show ?thesis by (simp add: round_double_def ulp_small Let_def sgn_if)
next
  case False
  assume "\<bar>n\<bar> \<le> 2 ^ 53"
  with False have "n = 9007199254740992 \<or> n = - 9007199254740992"
    by (simp add: abs_if split: if_splits)
  then show ?thesis
    by (auto simp: round_double_def ulp_two Let_def)
qed

lemma js_plus_exact: "\<bar>a\<bar> < 2 ^ 53 \<Longrightarrow> js_plus a 1 = a + 1"
  unfolding js_plus_def by (rule round_double_exact) linarith

lemma js_minus_exact: "\<bar>a\<bar> < 2 ^ 53 \<Longrightarrow> js_minus a 1 = a - 1"
  unfolding js_minus_def by (rule round_double_exact) linarith

lemma js_plus_rounds: "js_plus 18014398509481984 1 = 18014398509481984"
  by code_simp

lemma js_minus_rounds: "js_minus 18014398509481984 1 = 18014398509481984"
  by code_simp

lemmas gw_defs = return_gw_def bind_gw_def try_catch_def invoke_def call_fillBlocks_def

lemma propagates_return: "propagates (return_gw a)"
  by (simp add: propagates_def return_gw_def)

lemma propagates_invoke: "propagates (invoke c f)"
  by (auto simp: propagates_def invoke_def split: prod.splits sum.splits)

lemma propagatesD:
  "propagates m \<Longrightarrow> m (w, evs) = (r, w', evs') \<Longrightarrow>
     \<exists>new. evs' = evs @ new \<and> (\<forall>c e. (c, Some e) \<in> set new \<longrightarrow> r = Inl e)"
  unfolding propagates_def by (erule allE [of _ w], erule allE [of _ evs]) simp

lemma propagates_bind:
  assumes m: "propagates m" and k: "\<And>a. propagates (k a)"
  shows "propagates (bind_gw m k)"
proof (unfold propagates_def, intro allI)
  fix w evs
  obtain r w1 evs1 where ms: "m (w, evs) = (r, w1, evs1)"
    by (cases "m (w, evs)") auto
  from propagatesD [OF m ms] obtain new1 where n1: "evs1 = evs @ new1"
    and t1: "\<And>c e. (c, Some e) \<in> set new1 \<Longrightarrow> r = Inl e"
    by blast
  show "case bind_gw m k (w, evs) of
          (r, w', evs') \<Rightarrow>
            \<exists>new. evs' = evs @ new \<and> (\<forall>c e. (c, Some e) \<in> set new \<longrightarrow> r = Inl e)"
  proof (cases r)
    case (Inl e)
    with ms n1 t1 show ?thesis by (auto simp: bind_gw_def)
  next
    case (Inr a)
    obtain r2 w2 evs2 where ks: "k a (w1, evs1) = (r2, w2, evs2)"
      by (cases "k a (w1, evs1)") auto
    from propagatesD [OF k ks] obtain new2 where n2: "evs2 = evs1 @ new2"
      and t2: "\<And>c e. (c, Some e) \<in> set new2 \<Longrightarrow> r2 = Inl e"
      by blast
    from Inr t1 have none1: "\<And>c e. (c, Some e) \<notin> set new1" by fastforce
    have "evs2 = evs @ (new1 @ new2)" using n1 n2 by simp
    moreover have "\<forall>c e. (c, Some e) \<in> set (new1 @ new2) \<longrightarrow> r2 = Inl e"
      using none1 t2 by auto
    ultimately show ?thesis using ms Inr ks by (auto simp: bind_gw_def)
  qed
qed

lemma propagates_read: "propagates (\<lambda>(w, evs). return_gw (f w) (w, evs))"
  by (simp add: propagates_def return_gw_def)

lemma propagates_place_blocks: "propagates (place_blocks api c b h)"
  by (simp add: place_blocks_def call_fillBlocks_def propagates_bind propagates_invoke
      propagates_return)

lemma propagates_world_try:
  "w_action args \<noteq> ''sequence'' \<Longrightarrow> propagates (world_try api sq now args)"
  unfolding world_try_def Let_def
  by (intro propagates_bind propagates_invoke propagates_return propagates_read
      | simp only: if_split option.split | intro conjI impI allI)+

lemma try_catch_propagates:
  assumes "propagates m" and "try_catch m h (w, []) = (r, w', evs)" and "(c, Some e) \<in> set evs"
  shows "r = h e"
proof -
  obtain r0 where ms: "m (w, []) = (r0, w', evs)" and r: "r = (case r0 of Inl e \<Rightarrow> h e | Inr a \<Rightarrow> a)"
    using assms(2) by (auto simp: try_catch_def split: prod.splits sum.splits)
  from propagatesD [OF assms(1) ms] assms(3) have "r0 = Inl e" by auto
  with r show ?thesis by simp
qed

lemma build_rejected:
  "build_cube_execute api world args =
     (if action_of args \<noteq> ''build'' then
        (createErrorResponse (unknown_build_action (action_of args)), [], world)
      else if y_out_of_range (coords_of args) then (failure y_message, [], world)
      else if volume (coords_of args) > 32768 then (failure volume_message, [], world)
      else case world of
        None \<Rightarrow> (failure unavailable_message, [], world)
      | Some w \<Rightarrow>
          (case try_catch
                  (bind_gw (place_blocks api (coords_of args) (blockId_of (material_of args))
                              (hollow_of args))
                     (\<lambda>blocksPlaced. return_gw (built (coords_of args)
                        (blockId_of (material_of args)) (hollow_of args) blocksPlaced)))
                  (\<lambda>error. failure [Txt ''Building error: '', Txt (error_text error)])
                  (w, [])
           of (r, w', evs) \<Rightarrow> (r, evs, Some w')))"
  by (simp add: build_cube_execute_def build_cube_try_def Let_def split: option.splits prod.splits)

section \<open>The claims\<close>

text \<open>
  Claim C1 (volume formula and symmetry under exchanging the corners). The code computes
  \<open>|x2-x1+1| * |y2-y1+1| * |z2-z1+1|\<close>, with the \<open>+1\<close> inside the absolute value, and this is
  not symmetric: the corners \<open>(0,64,0)\<close>, \<open>(5,64,0)\<close> give 6 and the exchanged corners give 4.
  The request \<open>(0,64,0)\<close> to \<open>(1,100,1000)\<close> is refused as too large (74074 blocks), the same
  region with its corners exchanged has computed volume 0 and is sent to the world.
\<close>

theorem volume_depends_on_corner_order:
  "volume \<lparr>c_x1 = 0, c_y1 = 64, c_z1 = 0, c_x2 = 5, c_y2 = 64, c_z2 = 0\<rparr> = 6 \<and>
   volume \<lparr>c_x1 = 5, c_y1 = 64, c_z1 = 0, c_x2 = 0, c_y2 = 64, c_z2 = 0\<rparr> = 4 \<and>
   build_cube_execute scripted_api (Some [Inr 5]) (cube_request 0 64 0 1 100 1000) =
     (failure volume_message, [], Some [Inr 5]) \<and>
   fst (snd (build_cube_execute scripted_api (Some [Inr 5]) (cube_request 1 100 1000 0 64 0))) =
     [(FillBlocks (1, 100, 1000) (0, 64, 0) ''minecraft:stone'', None)]"
  by (simp add: build_rejected volume_def cube_request_def action_of_def coords_of_def
      y_out_of_range_def material_of_def hollow_of_def blockId_of_def place_blocks_def gw_defs
      scripted_api_def corner1_def corner2_def)

text \<open>
  Claim C2 (no connected world: the connectivity error comes first), as stated, fails for the
  build tool: the request with \<open>y1 = -70\<close> on a tool without world returns the message of the
  height check, since the tool tests \<open>this.world\<close> after the action, height and volume checks.
\<close>

theorem unavailable_after_height_check_counterexample:
  "fst (build_cube_execute scripted_api None (cube_request 0 (-70) 0 10 74 10)) = failure y_message \<and>
   fst (build_cube_execute scripted_api None (cube_request 0 (-70) 0 10 74 10))
     \<noteq> failure unavailable_message"
  by (simp add: build_rejected cube_request_def action_of_def coords_of_def
      y_out_of_range_def failure_def y_message_def unavailable_message_def)

text \<open>
  Claim C2, amended. Without a connected world the world tool returns the connectivity error
  before anything else, for every action, and calls nothing. The build tool without a connected
  world calls nothing and fails too, with the error of the first check that fails, in the
  order: action, height, volume, connection.
\<close>

theorem unavailable_world:
  "world_execute api sq now None wargs = (failure unavailable_message, [], None) \<and>
   build_cube_execute api None bargs =
     (if action_of bargs \<noteq> ''build'' then
        createErrorResponse (unknown_build_action (action_of bargs))
      else if y_out_of_range (coords_of bargs) then failure y_message
      else if volume (coords_of bargs) > 32768 then failure volume_message
      else failure unavailable_message, [], None) \<and>
   \<not> success (fst (build_cube_execute api None bargs))"
  by (simp add: build_rejected world_execute_def failure_def createErrorResponse_def)

lemma y_in_range:
  assumes "\<not> y_out_of_range c"
  shows "\<bar>c_y1 c\<bar> < 2 ^ 53" and "\<bar>c_y2 c\<bar> < 2 ^ 53"
  using assms by (simp_all add: y_out_of_range_def abs_if)

lemma inner_exact:
  assumes "\<not> y_out_of_range c"
    and "\<bar>c_x1 c\<bar> < 2 ^ 53" "\<bar>c_x2 c\<bar> < 2 ^ 53" "\<bar>c_z1 c\<bar> < 2 ^ 53" "\<bar>c_z2 c\<bar> < 2 ^ 53"
  shows "inner1 c =
           (min (c_x1 c) (c_x2 c) + 1, min (c_y1 c) (c_y2 c) + 1, min (c_z1 c) (c_z2 c) + 1)"
    and "inner2 c =
           (max (c_x1 c) (c_x2 c) - 1, max (c_y1 c) (c_y2 c) - 1, max (c_z1 c) (c_z2 c) - 1)"
proof -
  note y = y_in_range [OF assms(1)]
  have "\<bar>min (c_x1 c) (c_x2 c)\<bar> < 2 ^ 53" "\<bar>min (c_y1 c) (c_y2 c)\<bar> < 2 ^ 53"
    "\<bar>min (c_z1 c) (c_z2 c)\<bar> < 2 ^ 53"
    using assms(2-5) y by (simp_all add: min_def)
  then show "inner1 c =
           (min (c_x1 c) (c_x2 c) + 1, min (c_y1 c) (c_y2 c) + 1, min (c_z1 c) (c_z2 c) + 1)"
    by (simp add: inner1_def js_plus_exact)
  have "\<bar>max (c_x1 c) (c_x2 c)\<bar> < 2 ^ 53" "\<bar>max (c_y1 c) (c_y2 c)\<bar> < 2 ^ 53"
    "\<bar>max (c_z1 c) (c_z2 c)\<bar> < 2 ^ 53"
    using assms(2-5) y by (simp_all add: max_def)
  then show "inner2 c =
           (max (c_x1 c) (c_x2 c) - 1, max (c_y1 c) (c_y2 c) - 1, max (c_z1 c) (c_z2 c) - 1)"
    by (simp add: inner2_def js_minus_exact)
qed

lemma has_interior_iff:
  assumes "\<not> y_out_of_range c"
    and "\<bar>c_x1 c\<bar> < 2 ^ 53" "\<bar>c_x2 c\<bar> < 2 ^ 53" "\<bar>c_z1 c\<bar> < 2 ^ 53" "\<bar>c_z2 c\<bar> < 2 ^ 53"
  shows "has_interior c \<longleftrightarrow>
     \<bar>c_x2 c - c_x1 c\<bar> + 1 \<ge> 3 \<and> \<bar>c_y2 c - c_y1 c\<bar> + 1 \<ge> 3 \<and> \<bar>c_z2 c - c_z1 c\<bar> + 1 \<ge> 3"
  unfolding has_interior_def inner_exact [OF assms] by (simp add: min_def max_def) linarith

lemma build_valid:
  "valid_request args \<Longrightarrow>
   build_cube_execute api (Some w) args =
     (case try_catch
             (bind_gw (place_blocks api (coords_of args) (blockId_of (material_of args))
                         (hollow_of args))
                (\<lambda>blocksPlaced. return_gw (built (coords_of args)
                   (blockId_of (material_of args)) (hollow_of args) blocksPlaced)))
             (\<lambda>error. failure [Txt ''Building error: '', Txt (error_text error)])
             (w, [])
      of (r, w', evs) \<Rightarrow> (r, evs, Some w'))"
  by (simp add: build_rejected valid_request_def)

text \<open>
  Claim C3 (hollow build: two fill calls when an interior exists, one otherwise), as stated,
  fails: the hollow request \<open>(0,64,0)\<close> to \<open>(10,74,10)\<close> passes the checks and has an interior,
  but no call is made when no world is connected, and the outer fill is the only call when it
  throws. At \<open>x1 = x2 = 2^54\<close> the region spans one block along x, yet the sum and the
  difference of lines 190 and 193 both round to \<open>2^54\<close>, the test of line 198 passes and two
  fills are made.
\<close>

theorem hollow_build_fill_calls_counterexample:
  "valid_request (hollow_request 0 64 0 10 74 10) \<and>
   has_interior (coords_of (hollow_request 0 64 0 10 74 10)) \<and>
   fst (snd (build_cube_execute scripted_api None (hollow_request 0 64 0 10 74 10))) = [] \<and>
   fst (snd (build_cube_execute scripted_api (Some [Inl (Error_object ''timeout'')])
              (hollow_request 0 64 0 10 74 10))) =
     [(FillBlocks (0, 64, 0) (10, 74, 10) ''minecraft:glass'', Some (Error_object ''timeout''))] \<and>
   valid_request (hollow_request 18014398509481984 64 0 18014398509481984 74 10) \<and>
   \<bar>c_x2 (coords_of (hollow_request 18014398509481984 64 0 18014398509481984 74 10)) -
    c_x1 (coords_of (hollow_request 18014398509481984 64 0 18014398509481984 74 10))\<bar> + 1 = 1 \<and>
   fst (snd (build_cube_execute scripted_api (Some [Inr 121, Inr 81])
              (hollow_request 18014398509481984 64 0 18014398509481984 74 10))) =
     [(FillBlocks (18014398509481984, 64, 0) (18014398509481984, 74, 10) ''minecraft:glass'', None),
      (FillBlocks (18014398509481984, 65, 1) (18014398509481984, 73, 9) ''minecraft:air'', None)]"
  by (simp add: build_rejected hollow_request_def valid_request_def action_of_def
      material_of_def hollow_of_def coords_of_def y_out_of_range_def volume_def blockId_of_def
      corner1_def corner2_def inner1_def inner2_def has_interior_def place_blocks_def gw_defs
      scripted_api_def js_plus_exact js_minus_exact js_plus_rounds js_minus_rounds)

text \<open>
  Claim C3, amended. For a hollow build that passed the checks, on a connected world whose
  outer fill (the full region with the requested material) returned \<open>n1\<close>: when the test of
  the interior passes, exactly two calls are made, the outer fill and then the fill of the
  interior with air, and when the inner fill returns \<open>n2\<close> the result is the success whose
  message and \<open>volume\<close> field report \<open>n1 - n2\<close> (when it throws, the failure with its text);
  when the test fails, the outer fill is the only call and \<open>n1\<close> is reported. When the x and
  z coordinates are below \<open>2^53\<close> in magnitude, the interior runs per axis from min+1 to
  max-1 and the test passes exactly when every axis spans at least 3 blocks.
\<close>

theorem hollow_build_fill_calls:
  assumes "valid_request args" and "hollow_of args"
    and "c = coords_of args"
    and "b = (case b_material args of
                None \<Rightarrow> ''minecraft:stone''
              | Some m \<Rightarrow> if CHR '':'' \<in> set m then m else ''minecraft:'' @ m)"
    and "fillBlocks api (c_x1 c, c_y1 c, c_z1 c) (c_x2 c, c_y2 c, c_z2 c) b w = (Inr n1, w1)"
    and "fillBlocks api (inner1 c) (inner2 c) ''minecraft:air'' w1 = (r2, w2)"
    and "placed = (if has_interior c
                   then (case r2 of Inr n2 \<Rightarrow> Inr (n1 - n2) | Inl e \<Rightarrow> Inl e)
                   else Inr n1)"
  shows "build_cube_execute api (Some w) args =
          (case placed of
             Inr k \<Rightarrow>
               \<lparr>success = True,
                message =
                  [Txt ''Hollow'', Txt '' cube built with '', Txt b, Txt '' from ('',
                   Sub (JNum (of_int (c_x1 c))), Txt '','', Sub (JNum (of_int (c_y1 c))),
                   Txt '','', Sub (JNum (of_int (c_z1 c))), Txt '') to ('',
                   Sub (JNum (of_int (c_x2 c))), Txt '','', Sub (JNum (of_int (c_y2 c))),
                   Txt '','', Sub (JNum (of_int (c_z2 c))), Txt ''). Placed '',
                   Sub (JNum (of_int k)), Txt '' blocks.''],
                data = Some \<lparr>d_type = ''cube'', d_from = (c_x1 c, c_y1 c, c_z1 c),
                             d_to = (c_x2 c, c_y2 c, c_z2 c), d_material = b, d_hollow = True,
                             d_volume = k, d_apiUsed = ''Socket-BE''\<rparr>\<rparr>
           | Inl e \<Rightarrow>
               \<lparr>success = False, message = [Txt ''Building error: '', Txt (error_text e)],
                data = None\<rparr>,
           if has_interior c then
             [(FillBlocks (c_x1 c, c_y1 c, c_z1 c) (c_x2 c, c_y2 c, c_z2 c) b, None),
              (FillBlocks (inner1 c) (inner2 c) ''minecraft:air'',
               case r2 of Inr n2 \<Rightarrow> None | Inl e \<Rightarrow> Some e)]
           else [(FillBlocks (c_x1 c, c_y1 c, c_z1 c) (c_x2 c, c_y2 c, c_z2 c) b, None)],
           Some (if has_interior c then w2 else w1)) \<and>
         (\<bar>c_x1 c\<bar> < 2 ^ 53 \<and> \<bar>c_x2 c\<bar> < 2 ^ 53 \<and> \<bar>c_z1 c\<bar> < 2 ^ 53 \<and> \<bar>c_z2 c\<bar> < 2 ^ 53 \<longrightarrow>
            inner1 c =
              (min (c_x1 c) (c_x2 c) + 1, min (c_y1 c) (c_y2 c) + 1, min (c_z1 c) (c_z2 c) + 1) \<and>
            inner2 c =
              (max (c_x1 c) (c_x2 c) - 1, max (c_y1 c) (c_y2 c) - 1, max (c_z1 c) (c_z2 c) - 1) \<and>
            (has_interior c \<longleftrightarrow>
               \<bar>c_x2 c - c_x1 c\<bar> + 1 \<ge> 3 \<and> \<bar>c_y2 c - c_y1 c\<bar> + 1 \<ge> 3 \<and>
               \<bar>c_z2 c - c_z1 c\<bar> + 1 \<ge> 3))"
proof
  have b: "b = blockId_of (material_of args)"
    using assms(4) by (simp add: blockId_of_def material_of_def split: option.splits)
  from assms(2,3,5,6,7) show "build_cube_execute api (Some w) args =
          (case placed of
             Inr k \<Rightarrow>
               \<lparr>success = True,
                message =
                  [Txt ''Hollow'', Txt '' cube built with '', Txt b, Txt '' from ('',
                   Sub (JNum (of_int (c_x1 c))), Txt '','', Sub (JNum (of_int (c_y1 c))),
                   Txt '','', Sub (JNum (of_int (c_z1 c))), Txt '') to ('',
                   Sub (JNum (of_int (c_x2 c))), Txt '','', Sub (JNum (of_int (c_y2 c))),
                   Txt '','', Sub (JNum (of_int (c_z2 c))), Txt ''). Placed '',
                   Sub (JNum (of_int k)), Txt '' blocks.''],
                data = Some \<lparr>d_type = ''cube'', d_from = (c_x1 c, c_y1 c, c_z1 c),
                             d_to = (c_x2 c, c_y2 c, c_z2 c), d_material = b, d_hollow = True,
                             d_volume = k, d_apiUsed = ''Socket-BE''\<rparr>\<rparr>
           | Inl e \<Rightarrow>
               \<lparr>success = False, message = [Txt ''Building error: '', Txt (error_text e)],
                data = None\<rparr>,
           if has_interior c then
             [(FillBlocks (c_x1 c, c_y1 c, c_z1 c) (c_x2 c, c_y2 c, c_z2 c) b, None),
              (FillBlocks (inner1 c) (inner2 c) ''minecraft:air'',
               case r2 of Inr n2 \<Rightarrow> None | Inl e \<Rightarrow> Some e)]
           else [(FillBlocks (c_x1 c, c_y1 c, c_z1 c) (c_x2 c, c_y2 c, c_z2 c) b, None)],
           Some (if has_interior c then w2 else w1))"
    unfolding build_valid [OF assms(1)] b
    by (simp add: place_blocks_def gw_defs corner1_def corner2_def built_def built_message_def
        failure_def split: sum.splits)
next
  have y: "\<not> y_out_of_range c"
    using assms(1,3) by (simp add: valid_request_def)
  show "\<bar>c_x1 c\<bar> < 2 ^ 53 \<and> \<bar>c_x2 c\<bar> < 2 ^ 53 \<and> \<bar>c_z1 c\<bar> < 2 ^ 53 \<and> \<bar>c_z2 c\<bar> < 2 ^ 53 \<longrightarrow>
            inner1 c =
              (min (c_x1 c) (c_x2 c) + 1, min (c_y1 c) (c_y2 c) + 1, min (c_z1 c) (c_z2 c) + 1) \<and>
            inner2 c =
              (max (c_x1 c) (c_x2 c) - 1, max (c_y1 c) (c_y2 c) - 1, max (c_z1 c) (c_z2 c) - 1) \<and>
            (has_interior c \<longleftrightarrow>
               \<bar>c_x2 c - c_x1 c\<bar> + 1 \<ge> 3 \<and> \<bar>c_y2 c - c_y1 c\<bar> + 1 \<ge> 3 \<and>
               \<bar>c_z2 c - c_z1 c\<bar> + 1 \<ge> 3)"
    using inner_exact [OF y] has_interior_iff [OF y] by blast
qed

text \<open>
  Claim C4 (volume above 32768 gives the volume error), as stated, fails when a Y coordinate
  is out of range as well: the height check runs first and its message is returned.
\<close>

theorem volume_after_height_check_counterexample:
  "volume (coords_of (cube_request 0 (-70) 0 100 74 100)) > 32768 \<and>
   fst (build_cube_execute scripted_api (Some []) (cube_request 0 (-70) 0 100 74 100))
     = failure y_message \<and>
   fst (build_cube_execute scripted_api (Some []) (cube_request 0 (-70) 0 100 74 100))
     \<noteq> failure volume_message"
  by (simp add: build_rejected cube_request_def action_of_def coords_of_def volume_def
      y_out_of_range_def failure_def y_message_def volume_message_def)

text \<open>
  Claim C4, amended. A build request whose floored Y coordinates both lie in \<open>[-64, 320]\<close> and
  whose computed volume exceeds 32768 fails with the volume error, and no call is made on the
  world.
\<close>

theorem volume_limit:
  assumes "action_of args = ''build''"
    and "-64 \<le> \<lfloor>b_y1 args\<rfloor>" "\<lfloor>b_y1 args\<rfloor> \<le> 320" "-64 \<le> \<lfloor>b_y2 args\<rfloor>" "\<lfloor>b_y2 args\<rfloor> \<le> 320"
    and "volume (coords_of args) > 32768"
  shows "build_cube_execute api world args = (failure volume_message, [], world)"
  using assms by (simp add: build_rejected y_out_of_range_def coords_of_def)

text \<open>
  Claim C5 (height band). A build request with a floored Y coordinate of either corner below
  -64 or above 320 fails with the height error, and no call is made on the world.
\<close>

theorem height_limit:
  assumes "action_of args = ''build''"
    and "\<lfloor>b_y1 args\<rfloor> < -64 \<or> \<lfloor>b_y1 args\<rfloor> > 320 \<or> \<lfloor>b_y2 args\<rfloor> < -64 \<or> \<lfloor>b_y2 args\<rfloor> > 320"
  shows "build_cube_execute api world args = (failure y_message, [], world)"
  using assms by (simp add: build_rejected y_out_of_range_def coords_of_def)

text \<open>
  Claim C6 (coordinate normalization). Each of the six coordinates is taken to the greatest
  integer not above it, for every real number, negative ones included; integer coordinates
  are left as they are; and the tool answers a request as it answers the request with the
  floored coordinates.
\<close>

theorem coordinates_floored:
  "(of_int (c_x1 (coords_of args)) \<le> b_x1 args \<and> b_x1 args < of_int (c_x1 (coords_of args)) + 1) \<and>
   (of_int (c_y1 (coords_of args)) \<le> b_y1 args \<and> b_y1 args < of_int (c_y1 (coords_of args)) + 1) \<and>
   (of_int (c_z1 (coords_of args)) \<le> b_z1 args \<and> b_z1 args < of_int (c_z1 (coords_of args)) + 1) \<and>
   (of_int (c_x2 (coords_of args)) \<le> b_x2 args \<and> b_x2 args < of_int (c_x2 (coords_of args)) + 1) \<and>
   (of_int (c_y2 (coords_of args)) \<le> b_y2 args \<and> b_y2 args < of_int (c_y2 (coords_of args)) + 1) \<and>
   (of_int (c_z2 (coords_of args)) \<le> b_z2 args \<and> b_z2 args < of_int (c_z2 (coords_of args)) + 1) \<and>
   coords_of \<lparr>b_action = a, b_x1 = of_int i1, b_y1 = of_int j1, b_z1 = of_int k1,
              b_x2 = of_int i2, b_y2 = of_int j2, b_z2 = of_int k2,
              b_material = m, b_hollow = h\<rparr>
     = \<lparr>c_x1 = i1, c_y1 = j1, c_z1 = k1, c_x2 = i2, c_y2 = j2, c_z2 = k2\<rparr> \<and>
   build_cube_execute api world
       (args\<lparr>b_x1 := of_int (c_x1 (coords_of args)), b_y1 := of_int (c_y1 (coords_of args)),
             b_z1 := of_int (c_z1 (coords_of args)), b_x2 := of_int (c_x2 (coords_of args)),
             b_y2 := of_int (c_y2 (coords_of args)), b_z2 := of_int (c_z2 (coords_of args))\<rparr>)
     = build_cube_execute api world args"
proof -
  have fl: "\<And>v::real. of_int \<lfloor>v\<rfloor> \<le> v \<and> v < of_int \<lfloor>v\<rfloor> + 1"
    by linarith
  define args' where "args' = args\<lparr>b_x1 := of_int (c_x1 (coords_of args)), b_y1 := of_int (c_y1 (coords_of args)),
             b_z1 := of_int (c_z1 (coords_of args)), b_x2 := of_int (c_x2 (coords_of args)),
             b_y2 := of_int (c_y2 (coords_of args)), b_z2 := of_int (c_z2 (coords_of args))\<rparr>"
  have same: "coords_of args' = coords_of args" "action_of args' = action_of args"
    "material_of args' = material_of args" "hollow_of args' = hollow_of args"
    by (simp_all add: args'_def coords_of_def action_of_def material_of_def hollow_of_def)
  have "build_cube_execute api world args' = build_cube_execute api world args"
    by (simp only: build_rejected same)
  then show ?thesis
    by (simp add: args'_def coords_of_def fl)
qed

text \<open>
  Claim C7 (material namespace). For a build request that passed the checks on a connected
  world, the first call is the fill of the region with the material \<open>b\<close>: the material
  itself when it contains \<open>:\<close>, \<open>minecraft:\<close> followed by it otherwise, and \<open>minecraft:stone\<close> when
  none is given. Every later fill is with air, and the data of the result names \<open>b\<close>.
\<close>

theorem material_namespace:
  assumes "valid_request args"
    and "b = (case b_material args of
                None \<Rightarrow> ''minecraft:stone''
              | Some m \<Rightarrow> if CHR '':'' \<in> set m then m else ''minecraft:'' @ m)"
  shows "(\<exists>ev rest. fst (snd (build_cube_execute api (Some w) args)) =
              (FillBlocks (corner1 (coords_of args)) (corner2 (coords_of args)) b, ev) # rest \<and>
            (\<forall>p q m ev'. (FillBlocks p q m, ev') \<in> set rest \<longrightarrow> m = ''minecraft:air'')) \<and>
         (\<forall>d. data (fst (build_cube_execute api (Some w) args)) = Some d \<longrightarrow> d_material d = b)"
proof -
  have b: "b = blockId_of (material_of args)"
    using assms(2) by (simp add: blockId_of_def material_of_def split: option.splits)
  show ?thesis
    unfolding build_valid [OF assms(1)] b [symmetric]
    by (auto simp: place_blocks_def gw_defs built_def failure_def
        split: if_splits sum.splits prod.splits)
qed

text \<open>
  Claim C8 (errors of the world are caught). When a call made by the build tool throws, the
  result is the failure with message \<open>Building error: \<close> and the text of the error; when a call
  made by the world tool throws (the calls of every action but \<open>sequence\<close>, whose calls are
  made by \<open>executeSequence\<close>), or when \<open>executeSequence\<close> rejects, the result is the failure
  with message \<open>World management error: \<close> and the text of the error. Both functions return
  a result in every case.
\<close>

theorem gateway_errors_wrapped:
  "(build_cube_execute api bworld bargs = (rb, eb, wb) \<and> (cb, Some xb) \<in> set eb \<longrightarrow>
      rb = \<lparr>success = False, message = [Txt ''Building error: '', Txt (error_text xb)],
            data = None\<rparr>) \<and>
   (world_execute wapi sq now wworld wargs = (rw, ew, ww) \<and>
    w_action wargs \<noteq> ''sequence'' \<and> (cw, Some xw) \<in> set ew \<longrightarrow>
      rw = \<lparr>success = False, message = [Txt ''World management error: '', Txt (error_text xw)],
            data = None\<rparr>) \<and>
   (w_action wargs = ''sequence'' \<and> w_steps wargs = Some steps \<and>
    sq steps (w, []) = (Inl xs, w1, evs1) \<longrightarrow>
      world_execute wapi sq now (Some w) wargs =
        (\<lparr>success = False, message = [Txt ''World management error: '', Txt (error_text xs)],
          data = None\<rparr>, evs1, Some w1))"
proof (intro conjI impI)
  assume a: "build_cube_execute api bworld bargs = (rb, eb, wb) \<and> (cb, Some xb) \<in> set eb"
  have p: "propagates (bind_gw (place_blocks api cs b h) (\<lambda>n. return_gw (built cs b h n)))"
    for cs b h
    by (intro propagates_bind propagates_place_blocks propagates_return)
  from a show "rb = \<lparr>success = False,
      message = [Txt ''Building error: '', Txt (error_text xb)], data = None\<rparr>"
    unfolding build_rejected
    by (auto simp: failure_def split: if_splits option.splits prod.splits
        dest!: try_catch_propagates [OF p])
next
  assume a: "world_execute wapi sq now wworld wargs = (rw, ew, ww) \<and>
    w_action wargs \<noteq> ''sequence'' \<and> (cw, Some xw) \<in> set ew"
  then show "rw = \<lparr>success = False,
      message = [Txt ''World management error: '', Txt (error_text xw)], data = None\<rparr>"
    unfolding world_execute_def
    by (auto simp: failure_def split: option.splits prod.splits
        dest!: try_catch_propagates [OF propagates_world_try])
next
  assume "w_action wargs = ''sequence'' \<and> w_steps wargs = Some steps \<and>
    sq steps (w, []) = (Inl xs, w1, evs1)"
  then show "world_execute wapi sq now (Some w) wargs =
        (\<lparr>success = False, message = [Txt ''World management error: '', Txt (error_text xs)],
          data = None\<rparr>, evs1, Some w1)"
    by (simp add: world_execute_def world_try_def try_catch_def failure_def)
qed

text \<open>
  Claim C9 (the reported volume). In a successful build result the field \<open>volume\<close> is the count
  the outer fill returned, minus the count the inner fill returned for a hollow build with an
  interior; it is not the volume of the pre-flight check.
\<close>

theorem reported_volume_is_net_count:
  assumes "build_cube_execute api world args = (r, evs, world')" and "success r"
    and "c = coords_of args" and "b = blockId_of (material_of args)"
  shows "\<exists>w d n1 w1. world = Some w \<and> data r = Some d \<and>
           fillBlocks api (corner1 c) (corner2 c) b w = (Inr n1, w1) \<and>
           (if hollow_of args \<and> has_interior c then
              \<exists>n2 w2. fillBlocks api (inner1 c) (inner2 c) ''minecraft:air'' w1 = (Inr n2, w2) \<and>
                d_volume d = n1 - n2
            else d_volume d = n1)"
  using assms unfolding build_rejected
  by (auto simp: place_blocks_def gw_defs built_def failure_def createErrorResponse_def
      split: if_splits option.splits sum.splits prod.splits)

lemma set_weather_execute:
  assumes "w_action args = ''set_weather''" and "w_weather args = Some s" and "s \<noteq> []"
  shows "world_execute api sq now (Some w) args =
     (case setWeather api (normalizeWeatherType s) (w_duration args) w of
        (Inl e, w1) \<Rightarrow>
          (failure [Txt ''World management error: '', Txt (error_text e)],
           [(SetWeather (normalizeWeatherType s) (w_duration args), Some e)], Some w1)
      | (Inr u, w1) \<Rightarrow>
          (completed ''set_weather'' JUndefined
             (if truthy_number (w_duration args) then
                [Txt ''Weather set to '', Txt s, Txt '' for '',
                 Sub (number_of (w_duration args)), Txt '' ticks'']
              else [Txt ''Weather set to '', Txt s]) now,
           [(SetWeather (normalizeWeatherType s) (w_duration args), None)], Some w1))"
  using assms
  by (simp add: world_execute_def world_try_def Let_def gw_defs truthy_string_def text_of_def
      split: sum.splits prod.splits)

text \<open>
  Claim C10 (weather normalization). \<open>normalizeWeatherType\<close> returns for every string: the
  strings that are \<open>clear\<close>, \<open>rain\<close> or \<open>thunder\<close> in lower case give their weather type, every
  other string gives \<open>Clear\<close>. A \<open>set_weather\<close> action with any non-empty weather string on a
  connected world makes exactly the call \<open>setWeather\<close> with the normalized type, and succeeds
  when that call returns.
\<close>

theorem weather_normalized:
  "(toLowerCase s = ''clear'' \<longrightarrow> normalizeWeatherType s = Clear) \<and>
   (toLowerCase s = ''rain'' \<longrightarrow> normalizeWeatherType s = Rain) \<and>
   (toLowerCase s = ''thunder'' \<longrightarrow> normalizeWeatherType s = Thunder) \<and>
   (toLowerCase s \<noteq> ''rain'' \<and> toLowerCase s \<noteq> ''thunder'' \<longrightarrow> normalizeWeatherType s = Clear) \<and>
   (w_action args = ''set_weather'' \<and> w_weather args = Some s \<and> s \<noteq> [] \<longrightarrow>
      (\<exists>ev. fst (snd (world_execute api sq now (Some w) args)) =
         [(SetWeather (normalizeWeatherType s) (w_duration args), ev)]) \<and>
      (\<forall>w1. setWeather api (normalizeWeatherType s) (w_duration args) w = (Inr (), w1) \<longrightarrow>
         success (fst (world_execute api sq now (Some w) args))))"
proof (intro conjI impI)
  assume a: "w_action args = ''set_weather'' \<and> w_weather args = Some s \<and> s \<noteq> []"
  then have e: "world_execute api sq now (Some w) args =
     (case setWeather api (normalizeWeatherType s) (w_duration args) w of
        (Inl e, w1) \<Rightarrow>
          (failure [Txt ''World management error: '', Txt (error_text e)],
           [(SetWeather (normalizeWeatherType s) (w_duration args), Some e)], Some w1)
      | (Inr u, w1) \<Rightarrow>
          (completed ''set_weather'' JUndefined
             (if truthy_number (w_duration args) then
                [Txt ''Weather set to '', Txt s, Txt '' for '',
                 Sub (number_of (w_duration args)), Txt '' ticks'']
              else [Txt ''Weather set to '', Txt s]) now,
           [(SetWeather (normalizeWeatherType s) (w_duration args), None)], Some w1))"
    by (simp add: set_weather_execute)
  show "\<exists>ev. fst (snd (world_execute api sq now (Some w) args)) =
         [(SetWeather (normalizeWeatherType s) (w_duration args), ev)]"
    unfolding e by (simp split: sum.splits prod.splits)
  show "\<forall>w1. setWeather api (normalizeWeatherType s) (w_duration args) w = (Inr (), w1) \<longrightarrow>
         success (fst (world_execute api sq now (Some w) args))"
    unfolding e by (simp add: completed_def)
qed (simp_all add: normalizeWeatherType_def Let_def)

section \<open>Concrete runs\<close>

lemmas request_defs = cube_request_def world_request_def action_of_def material_of_def
  hollow_of_def coords_of_def valid_request_def y_out_of_range_def volume_def blockId_of_def
  corner1_def corner2_def inner1_def inner2_def has_interior_def

theorem unavailable_world_witness:
  "world_execute scripted_api (rejecting_sequence (Error_object ''closed'')) 0 None
     (world_request ''get_day'') = (failure unavailable_message, [], None) \<and>
   build_cube_execute scripted_api None (cube_request 0 64 0 10 74 10) =
     (failure unavailable_message, [], None) \<and>
   build_cube_execute scripted_api None (cube_request 0 (-70) 0 10 74 10) =
     (failure y_message, [], None)"
  using unavailable_world [of scripted_api "rejecting_sequence (Error_object ''closed'')" 0
      "world_request ''get_day''" "cube_request 0 64 0 10 74 10"]
    unavailable_world [of scripted_api "rejecting_sequence (Error_object ''closed'')" 0
      "world_request ''get_day''" "cube_request 0 (-70) 0 10 74 10"]
  by (simp add: request_defs)

theorem hollow_build_fill_calls_witness:
  "build_cube_execute scripted_api (Some [Inr 1331, Inr 729]) (hollow_request 0 64 0 10 74 10) =
     (\<lparr>success = True,
       message =
         [Txt ''Hollow'', Txt '' cube built with '', Txt ''minecraft:glass'', Txt '' from ('',
          Sub (JNum 0), Txt '','', Sub (JNum 64), Txt '','', Sub (JNum 0), Txt '') to ('',
          Sub (JNum 10), Txt '','', Sub (JNum 74), Txt '','', Sub (JNum 10),
          Txt ''). Placed '', Sub (JNum 602), Txt '' blocks.''],
       data = Some \<lparr>d_type = ''cube'', d_from = (0, 64, 0), d_to = (10, 74, 10),
                    d_material = ''minecraft:glass'', d_hollow = True, d_volume = 602,
                    d_apiUsed = ''Socket-BE''\<rparr>\<rparr>,
      [(FillBlocks (0, 64, 0) (10, 74, 10) ''minecraft:glass'', None),
       (FillBlocks (1, 65, 1) (9, 73, 9) ''minecraft:air'', None)], Some []) \<and>
   build_cube_execute scripted_api (Some [Inr 242, Inr 0]) (hollow_request 0 64 0 10 74 1) =
     (\<lparr>success = True,
       message =
         [Txt ''Hollow'', Txt '' cube built with '', Txt ''minecraft:glass'', Txt '' from ('',
          Sub (JNum 0), Txt '','', Sub (JNum 64), Txt '','', Sub (JNum 0), Txt '') to ('',
          Sub (JNum 10), Txt '','', Sub (JNum 74), Txt '','', Sub (JNum 1),
          Txt ''). Placed '', Sub (JNum 242), Txt '' blocks.''],
       data = Some \<lparr>d_type = ''cube'', d_from = (0, 64, 0), d_to = (10, 74, 1),
                    d_material = ''minecraft:glass'', d_hollow = True, d_volume = 242,
                    d_apiUsed = ''Socket-BE''\<rparr>\<rparr>,
      [(FillBlocks (0, 64, 0) (10, 74, 1) ''minecraft:glass'', None)], Some [Inr 0]) \<and>
   (has_interior (coords_of (hollow_request 0 64 0 10 74 10)) \<and>
    \<not> has_interior (coords_of (hollow_request 0 64 0 10 74 1)))"
proof -
  let ?a = "hollow_request 0 64 0 10 74 10"
  let ?b = "hollow_request 0 64 0 10 74 1"
  note defs = hollow_request_def valid_request_def action_of_def material_of_def hollow_of_def
    coords_of_def y_out_of_range_def volume_def inner1_def inner2_def has_interior_def
    js_plus_exact js_minus_exact
  have va: "valid_request ?a" and ha: "hollow_of ?a" and vb: "valid_request ?b" and hb: "hollow_of ?b"
    by (simp_all add: defs)
  have fa: "fillBlocks scripted_api (c_x1 (coords_of ?a), c_y1 (coords_of ?a), c_z1 (coords_of ?a))
      (c_x2 (coords_of ?a), c_y2 (coords_of ?a), c_z2 (coords_of ?a))
      (case b_material ?a of None \<Rightarrow> ''minecraft:stone''
       | Some m \<Rightarrow> if CHR '':'' \<in> set m then m else ''minecraft:'' @ m)
      [Inr 1331, Inr 729] = (Inr 1331, [Inr 729])"
    by (simp add: scripted_api_def)
  have ga: "fillBlocks scripted_api (inner1 (coords_of ?a)) (inner2 (coords_of ?a))
      ''minecraft:air'' [Inr 729] = (Inr 729, [])"
    by (simp add: scripted_api_def)
  have fb: "fillBlocks scripted_api (c_x1 (coords_of ?b), c_y1 (coords_of ?b), c_z1 (coords_of ?b))
      (c_x2 (coords_of ?b), c_y2 (coords_of ?b), c_z2 (coords_of ?b))
      (case b_material ?b of None \<Rightarrow> ''minecraft:stone''
       | Some m \<Rightarrow> if CHR '':'' \<in> set m then m else ''minecraft:'' @ m)
      [Inr 242, Inr 0] = (Inr 242, [Inr 0])"
    by (simp add: scripted_api_def)
  have gb: "fillBlocks scripted_api (inner1 (coords_of ?b)) (inner2 (coords_of ?b))
      ''minecraft:air'' [Inr 0] = (Inr 0, [])"
    by (simp add: scripted_api_def)
  show ?thesis
    using hollow_build_fill_calls [OF va ha refl refl fa ga refl]
      hollow_build_fill_calls [OF vb hb refl refl fb gb refl]
    by (simp add: defs)
qed

theorem volume_limit_witness:
  "build_cube_execute scripted_api (Some [Inr 5]) (cube_request 0 64 0 100 74 100) =
     (failure volume_message, [], Some [Inr 5])"
proof -
  let ?a = "cube_request 0 64 0 100 74 100"
  have "action_of ?a = ''build''" "-64 \<le> \<lfloor>b_y1 ?a\<rfloor>" "\<lfloor>b_y1 ?a\<rfloor> \<le> 320" "-64 \<le> \<lfloor>b_y2 ?a\<rfloor>"
    "\<lfloor>b_y2 ?a\<rfloor> \<le> 320" "volume (coords_of ?a) > 32768"
    by (simp_all add: request_defs)
  then show ?thesis by (rule volume_limit)
qed

theorem height_limit_witness:
  "build_cube_execute scripted_api (Some [Inr 5]) (cube_request 0 (-70) 0 10 74 10) =
     (failure y_message, [], Some [Inr 5])"
proof -
  let ?a = "cube_request 0 (-70) 0 10 74 10"
  have "action_of ?a = ''build''"
    and "\<lfloor>b_y1 ?a\<rfloor> < -64 \<or> \<lfloor>b_y1 ?a\<rfloor> > 320 \<or> \<lfloor>b_y2 ?a\<rfloor> < -64 \<or> \<lfloor>b_y2 ?a\<rfloor> > 320"
    by (simp_all add: request_defs)
  then show ?thesis by (rule height_limit)
qed

theorem coordinates_floored_witness:
  "coords_of (cube_request (-3/2) (129/2) 0 (21/2) 74 (-5/4)) =
     \<lparr>c_x1 = -2, c_y1 = 64, c_z1 = 0, c_x2 = 10, c_y2 = 74, c_z2 = -2\<rparr> \<and>
   coords_of (cube_request (-2) 64 0 10 74 (-2)) =
     \<lparr>c_x1 = -2, c_y1 = 64, c_z1 = 0, c_x2 = 10, c_y2 = 74, c_z2 = -2\<rparr>"
  using coordinates_floored [of "cube_request (-3/2) (129/2) 0 (21/2) 74 (-5/4)"
      None "-2" 64 0 10 74 "-2" "Some ''stone''" None scripted_api None]
  by (simp add: request_defs)

lemmas eval_defs = build_rejected request_defs place_blocks_def gw_defs scripted_api_def
  built_def failure_def

theorem material_namespace_witness:
  "fst (snd (build_cube_execute scripted_api (Some [Inr 1331]) (cube_request 0 64 0 10 74 10))) =
     [(FillBlocks (0, 64, 0) (10, 74, 10) ''minecraft:stone'', None)] \<and>
   fst (snd (build_cube_execute scripted_api (Some [Inr 1331])
     ((cube_request 0 64 0 10 74 10)\<lparr>b_material := Some ''mymod:marble''\<rparr>))) =
     [(FillBlocks (0, 64, 0) (10, 74, 10) ''mymod:marble'', None)] \<and>
   fst (snd (build_cube_execute scripted_api (Some [Inr 1331])
     ((cube_request 0 64 0 10 74 10)\<lparr>b_material := None\<rparr>))) =
     [(FillBlocks (0, 64, 0) (10, 74, 10) ''minecraft:stone'', None)]"
proof -
  let ?a = "cube_request 0 64 0 10 74 10"
  let ?b = "(cube_request 0 64 0 10 74 10)\<lparr>b_material := Some ''mymod:marble''\<rparr>"
  let ?c = "(cube_request 0 64 0 10 74 10)\<lparr>b_material := None\<rparr>"
  have v: "valid_request ?a" "valid_request ?b" "valid_request ?c"
    by (simp_all add: request_defs)
  show ?thesis
    using material_namespace [OF v(1) refl, of scripted_api "[Inr 1331]"]
      material_namespace [OF v(2) refl, of scripted_api "[Inr 1331]"]
      material_namespace [OF v(3) refl, of scripted_api "[Inr 1331]"]
    by (simp add: eval_defs)
qed

theorem gateway_errors_wrapped_witness:
  "build_cube_execute scripted_api (Some [Inl (Error_object ''timeout'')])
       (cube_request 0 64 0 10 74 10) =
     (\<lparr>success = False, message = [Txt ''Building error: '', Txt ''timeout''], data = None\<rparr>,
      [(FillBlocks (0, 64, 0) (10, 74, 10) ''minecraft:stone'', Some (Error_object ''timeout''))],
      Some []) \<and>
   world_execute (failing_api (Other_value ''closed'')) (rejecting_sequence (Error_object ''x'')) 0
       (Some ()) (world_request ''get_day'') =
     (\<lparr>success = False, message = [Txt ''World management error: '', Txt ''closed''],
       data = None\<rparr>, [(GetDay, Some (Other_value ''closed''))], Some ()) \<and>
   world_execute (failing_api (Other_value ''closed'')) (rejecting_sequence (Error_object ''x'')) 0
       (Some ()) ((world_request ''sequence'')\<lparr>w_steps := Some [()]\<rparr>) =
     (\<lparr>success = False, message = [Txt ''World management error: '', Txt ''x''],
       data = None\<rparr>, [], Some ())"
proof -
  let ?b = "cube_request 0 64 0 10 74 10"
  let ?e = "Error_object ''timeout''"
  let ?call = "FillBlocks (0, 64, 0) (10, 74, 10) ''minecraft:stone''"
  let ?r = "\<lparr>success = False, message = [Txt ''Building error: '', Txt ''timeout''],
      data = (None :: cube_data option)\<rparr>"
  have "fst (snd (build_cube_execute scripted_api (Some [Inl ?e]) ?b)) = [(?call, Some ?e)]"
    and "snd (snd (build_cube_execute scripted_api (Some [Inl ?e]) ?b)) = Some []"
    by (simp_all add: eval_defs)
  then obtain r where b: "build_cube_execute scripted_api (Some [Inl ?e]) ?b =
      (r, [(?call, Some ?e)], Some [])"
    by (cases "build_cube_execute scripted_api (Some [Inl ?e]) ?b") auto
  let ?api = "failing_api (Other_value ''closed'')"
  let ?sq = "rejecting_sequence (Error_object ''x'') :: unit list \<Rightarrow> (unit, world_result) gw"
  have "fst (snd (world_execute ?api ?sq 0 (Some ()) (world_request ''get_day''))) =
      [(GetDay, Some (Other_value ''closed''))]"
    and "snd (snd (world_execute ?api ?sq 0 (Some ()) (world_request ''get_day''))) = Some ()"
    by (simp_all add: world_execute_def world_try_def gw_defs failing_api_def world_request_def)
  then obtain r' where w: "world_execute ?api ?sq 0 (Some ()) (world_request ''get_day'') =
      (r', [(GetDay, Some (Other_value ''closed''))], Some ())"
    by (cases "world_execute ?api ?sq 0 (Some ()) (world_request ''get_day'')") auto
  have s: "?sq [()] ((), []) = (Inl (Error_object ''x''), (), [])"
    by (simp add: rejecting_sequence_def)
  from gateway_errors_wrapped [where api = scripted_api and bworld = "Some [Inl ?e]"
      and bargs = ?b and rb = r and eb = "[(?call, Some ?e)]" and wb = "Some []"
      and cb = ?call and xb = ?e and wapi = ?api and sq = ?sq and now = 0
      and wworld = "Some ()" and wargs = "world_request ''get_day''" and rw = r'
      and ew = "[(GetDay, Some (Other_value ''closed''))]" and ww = "Some ()" and cw = GetDay
      and xw = "Other_value ''closed''" and steps = "[()]" and w = "()" and ?w1.0 = "()"
      and ?evs1.0 = "[]" and xs = "Error_object ''x''"]
    b w
  have one: "r = ?r" and two: "r' = \<lparr>success = False,
      message = [Txt ''World management error: '', Txt ''closed''], data = None\<rparr>"
    by (simp_all add: world_request_def)
  from gateway_errors_wrapped [where api = scripted_api and bworld = "Some [Inl ?e]"
      and bargs = ?b and rb = r and eb = "[(?call, Some ?e)]" and wb = "Some []"
      and cb = ?call and xb = ?e and wapi = ?api and sq = ?sq and now = 0
      and wworld = "Some ()" and wargs = "(world_request ''sequence'')\<lparr>w_steps := Some [()]\<rparr>"
      and rw = r'
      and ew = "[(GetDay, Some (Other_value ''closed''))]" and ww = "Some ()" and cw = GetDay
      and xw = "Other_value ''closed''" and steps = "[()]" and w = "()" and ?w1.0 = "()"
      and ?evs1.0 = "[]" and xs = "Error_object ''x''"] s
  have three: "world_execute ?api ?sq 0 (Some ())
      ((world_request ''sequence'')\<lparr>w_steps := Some [()]\<rparr>) =
     (\<lparr>success = False, message = [Txt ''World management error: '', Txt ''x''],
       data = None\<rparr>, [], Some ())"
    by (simp add: world_request_def)
  show ?thesis using b w one two three by simp
qed

theorem reported_volume_is_net_count_witness:
  "(\<exists>d. data (fst (build_cube_execute scripted_api (Some [Inr 7]) (cube_request 0 64 0 1 65 1)))
        = Some d \<and> d_volume d = 7) \<and>
   volume (coords_of (cube_request 0 64 0 1 65 1)) = 8"
proof -
  let ?a = "cube_request 0 64 0 1 65 1"
  obtain r evs w' where x: "build_cube_execute scripted_api (Some [Inr 7]) ?a = (r, evs, w')"
    by (cases "build_cube_execute scripted_api (Some [Inr 7]) ?a") auto
  then have s: "success r" by (auto simp: eval_defs)
  from reported_volume_is_net_count [OF x s refl refl]
  show ?thesis unfolding x by (auto simp: eval_defs)
qed

theorem weather_normalized_witness:
  "normalizeWeatherType ''RaIn'' = Rain \<and> normalizeWeatherType ''THUNDER'' = Thunder \<and>
   normalizeWeatherType ''Clear'' = Clear \<and> normalizeWeatherType ''sunny'' = Clear \<and>
   world_execute scripted_api (rejecting_sequence (Error_object ''x'')) 0 (Some [])
       ((world_request ''set_weather'')\<lparr>w_weather := Some ''sunny''\<rparr>) =
     (completed ''set_weather'' JUndefined [Txt ''Weather set to '', Txt ''sunny''] 0,
      [(SetWeather Clear None, None)], Some [])"
proof -
  have l: "toLowerCase ''RaIn'' = ''rain''" "toLowerCase ''THUNDER'' = ''thunder''"
    "toLowerCase ''Clear'' = ''clear''" "toLowerCase ''sunny'' = ''sunny''"
    by (simp_all add: toLowerCase_def lower_char_def)
  let ?args = "(world_request ''set_weather'')\<lparr>w_weather := Some ''sunny''\<rparr>"
  let ?sq = "rejecting_sequence (Error_object ''x'') :: unit list \<Rightarrow> ((thrown + int) list, world_result) gw"
  show ?thesis
    using weather_normalized [of "''RaIn''" ?args scripted_api ?sq 0 "[]"]
      weather_normalized [of "''THUNDER''" ?args scripted_api ?sq 0 "[]"]
      weather_normalized [of "''Clear''" ?args scripted_api ?sq 0 "[]"]
      weather_normalized [of "''sunny''" ?args scripted_api ?sq 0 "[]"]
    by (simp add: l set_weather_execute world_request_def scripted_api_def truthy_number_def)
qed

end
